theory Spec2Isabelle
  imports Main "HOL-Library.Word" "HOL-Library.Multiset"
begin

section \<open>The coordinator of CoordinatorServer.cc\<close>

text \<open>
  The coordinator keeps a list of masters, a list of backups, the tablet map, the
  table names and two counters. Its RPC handlers are modelled as functions from the
  state before the request to the outcome of the request: the value returned or the
  exception thrown, the calls made to the outside (the responder, the master client,
  the recovery engine, the test log) in the order they are made, and the state after.
  The transport is outside the model: a handler receives the strings and messages its
  request carries, already extracted from the payload, and every outgoing call returns
  normally. \<^verbatim>\<open>LOG\<close> lines are left out.
\<close>

type_synonym u32 = "32 word"
type_synonym u64 = "64 word"

subsection \<open>Messages\<close>

datatype Tablets_Tablet_State = NORMAL | RECOVERING

text \<open>
  Modelled from the spec: the declaration of \<^verbatim>\<open>ProtoBuf::Tablets::Tablet\<close> (the
  message definitions are not part of the sources). The fields are those the handlers
  set and read, with the widths of section 3 of the specification. A field that the
  code never sets holds the default of its type (0, the empty string, \<open>NORMAL\<close>).
\<close>

record Tablets_Tablet =
  table_id :: u64
  start_object_id :: u64
  end_object_id :: u64
  state :: Tablets_Tablet_State
  server_id :: u64
  service_locator :: string
  user_data :: u64

type_synonym Tablets = "Tablets_Tablet list"

definition add_tablet :: Tablets_Tablet where
  "add_tablet = \<lparr>table_id = 0, start_object_id = 0, end_object_id = 0, state = NORMAL,
     server_id = 0, service_locator = [], user_data = 0\<rparr>"

datatype ServerType = MASTER | BACKUP

text \<open>
  Modelled from the spec: the declaration of \<^verbatim>\<open>ProtoBuf::ServerList::Entry\<close> (the
  message definitions are not part of the sources), with the fields the handlers set
  and read. In the source the \<^verbatim>\<open>user_data\<close> of a master is the address of its will,
  a \<^verbatim>\<open>ProtoBuf::Tablets\<close> that \<^verbatim>\<open>enlistServer\<close> allocates for this entry alone and
  that is reached only through this entry; the model stores the will itself in the
  field. The \<^verbatim>\<open>user_data\<close> of a backup is never read; the model gives it the empty
  will.
\<close>

record ServerList_Entry =
  server_type :: ServerType
  entry_server_id :: u64
  entry_service_locator :: string
  entry_user_data :: Tablets

subsection \<open>State, exceptions and outside calls\<close>

text \<open>
  Modelled from the spec: the declarations of the members of the coordinator (the
  header \<^verbatim>\<open>CoordinatorServer.h\<close> is not part of the sources). \<open>tables\<close> maps
  a name to the 32-bit id that \<^verbatim>\<open>createTable\<close> stores in it; \<open>nextTableId\<close> is the
  64-bit counter of the specification, read through the \<^verbatim>\<open>uint32_t tableId\<close> of the
  handlers; \<open>mockRecovery\<close> tells whether the pointer of that name is set.
\<close>

record CoordinatorServer =
  nextServerId :: u64
  backupList :: "ServerList_Entry list"
  masterList :: "ServerList_Entry list"
  tabletMap :: Tablets
  tables :: "string \<rightharpoonup> u32"
  nextTableId :: u64
  mockRecovery :: bool

definition CoordinatorServer_init :: CoordinatorServer where
  "CoordinatorServer_init = \<lparr>nextServerId = 1, backupList = [], masterList = [],
     tabletMap = [], tables = Map.empty, nextTableId = 0, mockRecovery = False\<rparr>"

text \<open>
  The exceptions of the handlers. \<open>IndexOutOfRange\<close> is not an exception of the
  source: it stands for the read of element 0 of an empty repeated field, which the
  source does not check and which has no defined result.
\<close>

datatype error = RetryException | TableDoesntExistException | UnimplementedRequestError
  | IndexOutOfRange

datatype call =
    Respond
  | SetTablets string Tablets
  | MockRecoveryCall u64 Tablets "ServerList_Entry list" "ServerList_Entry list"
  | RecoveryStart u64 Tablets "ServerList_Entry list" "ServerList_Entry list"
  | TestLog nat

type_synonym 'a outcome = "(error + 'a) \<times> call list \<times> CoordinatorServer"

definition result :: "'a outcome \<Rightarrow> error + 'a" where
  "result out = fst out"

definition calls :: "'a outcome \<Rightarrow> call list" where
  "calls out = fst (snd out)"

definition after :: "'a outcome \<Rightarrow> CoordinatorServer" where
  "after out = snd (snd out)"

subsection \<open>createTable\<close>

text \<open>
  \<^verbatim>\<open>~0UL\<close> is the 64-bit word of all ones. The will entry is added with the defaults
  of a tablet and then filled in; the partition id it receives is read from the entry
  before it, at index \<^verbatim>\<open>tablet_size() - 2\<close>, when there is one.
\<close>

definition createTable :: "CoordinatorServer \<Rightarrow> string \<Rightarrow> unit outcome" where
  "createTable s name =
     (if length (masterList s) = 0 then (Inl RetryException, [], s)
      else if tables s name \<noteq> None then (Inr (), [], s)
      else
        let tableId = (ucast (nextTableId s) :: u32);
            s1 = s\<lparr>nextTableId := nextTableId s + 1,
                   tables := (tables s)(name \<mapsto> tableId)\<rparr>;
            master = masterList s1 ! 0;
            tablet = add_tablet\<lparr>table_id := ucast tableId, start_object_id := 0,
                       end_object_id := - 1, state := NORMAL,
                       server_id := entry_server_id master,
                       service_locator := entry_service_locator master\<rparr>;
            s2 = s1\<lparr>tabletMap := tabletMap s1 @ [tablet]\<rparr>;
            will = entry_user_data master @ [add_tablet];
            willEntry = (last will)\<lparr>table_id := ucast tableId, start_object_id := 0,
                       end_object_id := - 1, state := NORMAL\<rparr>;
            maxPartitionId =
              (if length will > 1 then user_data (will ! (length will - 2)) else 0);
            will' = will[length will - 1 := willEntry\<lparr>user_data := maxPartitionId\<rparr>];
            s3 = s2\<lparr>masterList := (masterList s2)[0 := master\<lparr>entry_user_data := will'\<rparr>]\<rparr>
        in (Inr (), [SetTablets (entry_service_locator master) (tabletMap s3)], s3))"

subsection \<open>dropTable\<close>

text \<open>
  \<^verbatim>\<open>SwapElements(size - 1, i)\<close> followed by \<^verbatim>\<open>RemoveLast()\<close>, as both handlers use it.
\<close>

definition swapRemoveLast :: "nat \<Rightarrow> 'a list \<Rightarrow> 'a list" where
  "swapRemoveLast i xs =
     butlast (xs[i := xs ! (length xs - 1), length xs - 1 := xs ! i])"

text \<open>The loop over the tablet map: \<open>i\<close> advances only past a tablet that stays.\<close>

function dropLoop :: "u32 \<Rightarrow> nat \<Rightarrow> Tablets \<Rightarrow> Tablets" where
  "dropLoop tableId i ts =
     (if i < length ts then
        (if table_id (ts ! i) = ucast tableId then dropLoop tableId i (swapRemoveLast i ts)
         else dropLoop tableId (Suc i) ts)
      else ts)"
  by pat_completeness auto
termination
  by (relation "measure (\<lambda>(tableId, i, ts). length ts - i)")
    (auto simp: swapRemoveLast_def)

declare dropLoop.simps [simp del]

definition dropTable :: "CoordinatorServer \<Rightarrow> string \<Rightarrow> unit outcome" where
  "dropTable s name =
     (case tables s name of
        None \<Rightarrow> (Inr (), [], s)
      | Some tableId \<Rightarrow>
          let s1 = s\<lparr>tables := (tables s)(name := None)\<rparr>;
              s2 = s1\<lparr>tabletMap := dropLoop tableId 0 (tabletMap s1)\<rparr>
          in if length (masterList s2) = 0 then (Inl IndexOutOfRange, [], s2)
             else (Inr (),
                   [SetTablets (entry_service_locator (masterList s2 ! 0)) (tabletMap s2)],
                   s2))"

subsection \<open>openTable and enlistServer\<close>

definition openTable :: "CoordinatorServer \<Rightarrow> string \<Rightarrow> u32 outcome" where
  "openTable s name =
     (case tables s name of
        None \<Rightarrow> (Inl TableDoesntExistException, [], s)
      | Some tableId \<Rightarrow> (Inr tableId, [], s))"

definition enlistServer :: "CoordinatorServer \<Rightarrow> ServerType \<Rightarrow> string \<Rightarrow> u64 outcome" where
  "enlistServer s serverType locator =
     (let serverId = nextServerId s;
          s1 = s\<lparr>nextServerId := nextServerId s + 1\<rparr>;
          server = \<lparr>server_type = serverType, entry_server_id = serverId,
                     entry_service_locator = locator, entry_user_data = []\<rparr>
      in (Inr serverId, [],
          (if serverType = MASTER then s1\<lparr>masterList := masterList s1 @ [server]\<rparr>
           else s1\<lparr>backupList := backupList s1 @ [server]\<rparr>)))"

subsection \<open>hintServerDown\<close>

text \<open>The scan of a server list for the first entry with the given locator.\<close>

fun firstWithLocator :: "string \<Rightarrow> ServerList_Entry list \<Rightarrow> nat option" where
  "firstWithLocator loc [] = None"
| "firstWithLocator loc (e # es) =
     (if entry_service_locator e = loc then Some 0
      else map_option Suc (firstWithLocator loc es))"

definition markRecovering :: "u64 \<Rightarrow> Tablets \<Rightarrow> Tablets" where
  "markRecovering serverId ts =
     map (\<lambda>tablet. if server_id tablet = serverId then tablet\<lparr>state := RECOVERING\<rparr>
                    else tablet) ts"

text \<open>
  The responder is called first. For a master the will is taken from the entry before
  the entry leaves the list, and the recovery engine (the mock when one is set)
  receives it together with the lists as they are after the removal.
\<close>

definition hintServerDown :: "CoordinatorServer \<Rightarrow> string \<Rightarrow> unit outcome" where
  "hintServerDown s serviceLocator =
     (case firstWithLocator serviceLocator (masterList s) of
        Some i \<Rightarrow>
          let master = masterList s ! i;
              serverId = entry_server_id master;
              will = entry_user_data master;
              s1 = s\<lparr>masterList := swapRemoveLast i (masterList s)\<rparr>;
              s2 = s1\<lparr>tabletMap := markRecovering serverId (tabletMap s1)\<rparr>
          in (Inr (),
              [Respond,
               (if mockRecovery s2
                then MockRecoveryCall serverId will (masterList s2) (backupList s2)
                else RecoveryStart serverId will (masterList s2) (backupList s2))],
              s2)
      | None \<Rightarrow>
          (case firstWithLocator serviceLocator (backupList s) of
             Some i \<Rightarrow>
               (Inr (), [Respond], s\<lparr>backupList := swapRemoveLast i (backupList s)\<rparr>)
           | None \<Rightarrow> (Inr (), [Respond], s)))"

subsection \<open>tabletsRecovered\<close>

text \<open>
  The handler parses the tablets of the request into a local message and writes their
  number to the test log. It touches no member of the coordinator.
\<close>

definition tabletsRecovered :: "CoordinatorServer \<Rightarrow> Tablets \<Rightarrow> unit outcome" where
  "tabletsRecovered s tablets = (Inr (), [TestLog (length tablets)], s)"

section \<open>The server list of CoordinatorServerListTest.cc\<close>

text \<open>
  Modelled from the spec: the class \<^verbatim>\<open>CoordinatorServerList\<close>, its entries and its
  updater. The second source file is the unit test of the class; the class itself is
  not part of the sources. Its data and operations follow sections 3, 4.1 and 4.3 of
  the specification, and what the test observes of them. Trackers, the durable log
  and the wire encoding of a service mask are left out.
\<close>

datatype ServiceType = MASTER_SERVICE | BACKUP_SERVICE | MEMBERSHIP_SERVICE | PING_SERVICE

type_synonym ServiceMask = "ServiceType set"

datatype ServerStatus = UP | CRASHED | DOWN

record ServerId =
  indexNumber :: u32
  generationNumber :: u32

record Entry =
  serverId :: ServerId
  serviceLocator :: string
  services :: ServiceMask
  expectedReadMBytesPerSec :: u32
  status :: ServerStatus
  will :: "Tablets option"
  logCabinEntryId :: u64

text \<open>An entry of a \<^verbatim>\<open>ProtoBuf::ServerList\<close>, as the test reads it back.\<close>

record ProtoBuf_Entry =
  pb_services :: ServiceMask
  pb_server_id :: ServerId
  pb_service_locator :: string
  pb_expected_read_mbytes_per_sec :: u32
  pb_status :: ServerStatus

record ProtoBuf_ServerList =
  version_number :: u64
  server :: "ProtoBuf_Entry list"

record GenerationNumberEntryPair =
  nextGenerationNumber :: u32
  entry :: "Entry option"

record CoordinatorServerList =
  serverList :: "GenerationNumberEntryPair list"
  numberOfMasters :: u32
  numberOfBackups :: u32
  version :: u64
  updates :: "ProtoBuf_Entry list"

datatype list_error = InvalidServerId | NoMastersAvailable | Abort

definition CoordinatorServerList_init :: CoordinatorServerList where
  "CoordinatorServerList_init = \<lparr>serverList = [], numberOfMasters = 0,
     numberOfBackups = 0, version = 0, updates = []\<rparr>"

text \<open>
  Modelled from the spec: \<^verbatim>\<open>CoordinatorServerList::Entry::serialize\<close>, which is not in
  the sources. The read speed is populated only for a backup (test
  \<^verbatim>\<open>Entry_serialize\<close>).
\<close>

definition serialize_entry :: "Entry \<Rightarrow> ProtoBuf_Entry" where
  "serialize_entry e = \<lparr>pb_services = services e, pb_server_id = serverId e,
     pb_service_locator = serviceLocator e,
     pb_expected_read_mbytes_per_sec =
       (if BACKUP_SERVICE \<in> services e then expectedReadMBytesPerSec e else 0),
     pb_status = status e\<rparr>"

text \<open>
  Modelled from the spec: \<^verbatim>\<open>CoordinatorServerList::firstFreeIndex\<close>, which is not in
  the sources: the lowest free slot index from 1 on, the vector grown when there is
  none (test \<^verbatim>\<open>firstFreeIndex\<close>: index 1 and two slots from the empty vector).
\<close>

definition firstFreeIndex ::
  "GenerationNumberEntryPair list \<Rightarrow> nat \<times> GenerationNumberEntryPair list" where
  "firstFreeIndex slots =
     (let index = (case find (\<lambda>i. entry (slots ! i) = None) [1..<length slots] of
                     Some i \<Rightarrow> i
                   | None \<Rightarrow> max 1 (length slots))
      in (index,
          if index \<ge> length slots
          then slots @ replicate (index + 1 - length slots)
                         \<lparr>nextGenerationNumber = 0, entry = None\<rparr>
          else slots))"

text \<open>
  Modelled from the spec: \<^verbatim>\<open>CoordinatorServerList::add\<close>, which is not in the sources.
  The specification has the slot's generation counter advance in \<^verbatim>\<open>remove\<close>; the test
  reads the counter as 1 right after the first \<^verbatim>\<open>add\<close> into a slot (test \<^verbatim>\<open>add\<close>,
  lines 125 and 145) and gets generation 1 from the \<^verbatim>\<open>add\<close> that follows one
  \<^verbatim>\<open>remove\<close> (test \<^verbatim>\<open>remove\<close>, lines 239 to 244), so the counter advances here, when
  the id is issued, and nowhere else.
\<close>

definition add ::
  "CoordinatorServerList \<Rightarrow> string \<Rightarrow> ServiceMask \<Rightarrow> u32 \<Rightarrow> ServerId \<times> CoordinatorServerList"
  where
  "add sl locator serviceMask readSpeed =
     (let (index, slots) = firstFreeIndex (serverList sl);
          pair = slots ! index;
          sid = \<lparr>indexNumber = of_nat index,
                  generationNumber = nextGenerationNumber pair\<rparr>;
          e = \<lparr>serverId = sid, serviceLocator = locator, services = serviceMask,
                expectedReadMBytesPerSec = (if BACKUP_SERVICE \<in> serviceMask then readSpeed else 0),
                status = UP,
                will = (if MASTER_SERVICE \<in> serviceMask then Some [] else None),
                logCabinEntryId = 0\<rparr>
      in (sid,
          sl\<lparr>serverList :=
                slots[index := \<lparr>nextGenerationNumber = nextGenerationNumber pair + 1,
                                entry = Some e\<rparr>],
             numberOfMasters :=
                numberOfMasters sl + (if MASTER_SERVICE \<in> serviceMask then 1 else 0),
             numberOfBackups :=
                numberOfBackups sl + (if BACKUP_SERVICE \<in> serviceMask then 1 else 0),
             updates := updates sl @ [serialize_entry e]\<rparr>))"

text \<open>
  Modelled from the spec: \<^verbatim>\<open>CoordinatorServerList::getReferenceFromServerId\<close>, which is
  not in the sources: the entry of the id's slot, when the slot exists, holds an entry
  and the entry carries this id.
\<close>

definition getReferenceFromServerId ::
  "CoordinatorServerList \<Rightarrow> ServerId \<Rightarrow> list_error + Entry" where
  "getReferenceFromServerId sl sid =
     (let index = unat (indexNumber sid) in
      if index < length (serverList sl) then
        (case entry (serverList sl ! index) of
           None \<Rightarrow> Inl InvalidServerId
         | Some e \<Rightarrow> if serverId e = sid then Inr e else Inl InvalidServerId)
      else Inl InvalidServerId)"

text \<open>
  Modelled from the spec: \<^verbatim>\<open>CoordinatorServerList::crashed\<close>, which is not in the
  sources. An entry that is stored with status \<open>DOWN\<close> breaks the life cycle, which
  the specification makes an abort.
\<close>

definition crashed :: "CoordinatorServerList \<Rightarrow> ServerId \<Rightarrow> list_error + CoordinatorServerList"
  where
  "crashed sl sid =
     (case getReferenceFromServerId sl sid of
        Inl err \<Rightarrow> Inl err
      | Inr e \<Rightarrow>
          (case status e of
             CRASHED \<Rightarrow> Inr sl
           | DOWN \<Rightarrow> Inl Abort
           | UP \<Rightarrow>
               let index = unat (indexNumber sid);
                   pair = serverList sl ! index;
                   e' = e\<lparr>status := CRASHED\<rparr>
               in Inr (sl\<lparr>serverList := (serverList sl)[index := pair\<lparr>entry := Some e'\<rparr>],
                         numberOfMasters :=
                           numberOfMasters sl - (if MASTER_SERVICE \<in> services e then 1 else 0),
                         numberOfBackups :=
                           numberOfBackups sl - (if BACKUP_SERVICE \<in> services e then 1 else 0),
                         updates := updates sl @ [serialize_entry e']\<rparr>)))"

text \<open>
  Modelled from the spec: \<^verbatim>\<open>CoordinatorServerList::remove\<close>, which is not in the
  sources. The generation counter of the slot is left as \<^verbatim>\<open>add\<close> set it (see there).
\<close>

definition remove :: "CoordinatorServerList \<Rightarrow> ServerId \<Rightarrow> list_error + CoordinatorServerList"
  where
  "remove sl sid =
     (case getReferenceFromServerId sl sid of
        Inl err \<Rightarrow> Inl err
      | Inr e \<Rightarrow>
          (case (if status e = UP then crashed sl sid else Inr sl) of
             Inl err \<Rightarrow> Inl err
           | Inr sl1 \<Rightarrow>
               let index = unat (indexNumber sid);
                   pair = serverList sl1 ! index;
                   e' = e\<lparr>status := DOWN\<rparr>
               in Inr (sl1\<lparr>serverList := (serverList sl1)[index := pair\<lparr>entry := None\<rparr>],
                          updates := updates sl1 @ [serialize_entry e']\<rparr>)))"

text \<open>
  The \<^verbatim>\<open>remove\<close> of the specification's words, for comparison: as \<open>remove\<close>, and the
  generation counter of the slot is incremented.
\<close>

definition remove_as_specified ::
  "CoordinatorServerList \<Rightarrow> ServerId \<Rightarrow> list_error + CoordinatorServerList" where
  "remove_as_specified sl sid =
     (case remove sl sid of
        Inl err \<Rightarrow> Inl err
      | Inr sl' \<Rightarrow>
          let index = unat (indexNumber sid);
              pair = serverList sl' ! index
          in Inr (sl'\<lparr>serverList := (serverList sl')[index :=
                     pair\<lparr>nextGenerationNumber := nextGenerationNumber pair + 1\<rparr>]\<rparr>))"

subsection \<open>Membership updates\<close>

text \<open>
  A message of the updater's queue: the delta with the version it advances the cluster
  to, and the excluded recipients.
\<close>

record message =
  update :: ProtoBuf_ServerList
  exclude :: "ServerId set"

datatype rpc =
    UpdateServerList ServerId ProtoBuf_ServerList
  | SetServerList ServerId ProtoBuf_ServerList

datatype reply = ok | lost_update

fun recipient :: "rpc \<Rightarrow> ServerId" where
  "recipient (UpdateServerList r u) = r"
| "recipient (SetServerList r l) = r"

definition sentTo :: "ServerId \<Rightarrow> rpc list \<Rightarrow> rpc list" where
  "sentTo r out = filter (\<lambda>m. recipient m = r) out"

text \<open>
  Modelled from the spec: \<^verbatim>\<open>CoordinatorServerList::sendMembershipUpdate\<close>, which is not
  in the sources: the version is advanced, the pending updates leave as a message with
  that version, and the pending updates start empty again (test \<^verbatim>\<open>add\<close>).
\<close>

definition sendMembershipUpdate ::
  "CoordinatorServerList \<Rightarrow> ServerId set \<Rightarrow> message \<times> CoordinatorServerList" where
  "sendMembershipUpdate sl excludes =
     (let v = version sl + 1
      in (\<lparr>update = \<lparr>version_number = v, server = updates sl\<rparr>, exclude = excludes\<rparr>,
          sl\<lparr>version := v, updates := []\<rparr>))"

definition isRecipient :: "message \<Rightarrow> Entry \<Rightarrow> bool" where
  "isRecipient msg e \<longleftrightarrow>
     status e = UP \<and> MEMBERSHIP_SERVICE \<in> services e \<and> serverId e \<notin> exclude msg"

text \<open>
  Modelled from the spec: the updater's protocol for one recipient (section 4.3), which
  is not in the sources. \<open>respond\<close> is the recipient's answer to an incremental update,
  \<open>full\<close> the published snapshot a full-list push carries, \<open>known\<close> the last-known
  version of every recipient (0 for one never updated). A full-list push leaves the
  recipient at the version of the snapshot.
\<close>

definition updateRecipient ::
  "(rpc \<Rightarrow> reply) \<Rightarrow> ProtoBuf_ServerList \<Rightarrow> message \<Rightarrow> Entry \<Rightarrow> (ServerId \<Rightarrow> u64)
     \<Rightarrow> rpc list \<times> (ServerId \<Rightarrow> u64)" where
  "updateRecipient respond full msg e known =
     (if isRecipient msg e then
        (if known (serverId e) = version_number (update msg) - 1 then
           (case respond (UpdateServerList (serverId e) (update msg)) of
              ok \<Rightarrow>
                ([UpdateServerList (serverId e) (update msg)],
                 known(serverId e := version_number (update msg)))
            | lost_update \<Rightarrow>
                ([UpdateServerList (serverId e) (update msg), SetServerList (serverId e) full],
                 known(serverId e := version_number full)))
         else ([SetServerList (serverId e) full], known(serverId e := version_number full)))
      else ([], known))"

fun updateEntries ::
  "(rpc \<Rightarrow> reply) \<Rightarrow> ProtoBuf_ServerList \<Rightarrow> message \<Rightarrow> Entry list \<Rightarrow> (ServerId \<Rightarrow> u64)
     \<Rightarrow> rpc list \<times> (ServerId \<Rightarrow> u64)" where
  "updateEntries respond full msg [] known = ([], known)"
| "updateEntries respond full msg (e # es) known =
     (let (out, known') = updateRecipient respond full msg e known;
          (outs, known'') = updateEntries respond full msg es known'
      in (out @ outs, known''))"

definition liveEntries :: "GenerationNumberEntryPair list \<Rightarrow> Entry list" where
  "liveEntries slots = List.map_filter entry slots"

text \<open>
  Modelled from the spec: the dispatch of one message of the queue to every entry of
  the server list, in slot order.
\<close>

definition dispatchUpdate ::
  "(rpc \<Rightarrow> reply) \<Rightarrow> ProtoBuf_ServerList \<Rightarrow> message \<Rightarrow> CoordinatorServerList
     \<Rightarrow> (ServerId \<Rightarrow> u64) \<Rightarrow> rpc list \<times> (ServerId \<Rightarrow> u64)" where
  "dispatchUpdate respond full msg sl known =
     updateEntries respond full msg (liveEntries (serverList sl)) known"

section \<open>Reachable states\<close>

text \<open>
  The states the coordinator gets into from its initial state through its handlers,
  and a property of them: every entry of every will carries partition id 0.
\<close>

inductive reachable :: "CoordinatorServer \<Rightarrow> bool" where
  init: "reachable CoordinatorServer_init"
| createTable: "reachable s \<Longrightarrow> reachable (after (createTable s name))"
| dropTable: "reachable s \<Longrightarrow> reachable (after (dropTable s name))"
| openTable: "reachable s \<Longrightarrow> reachable (after (openTable s name))"
| enlistServer: "reachable s \<Longrightarrow> reachable (after (enlistServer s serverType locator))"
| hintServerDown: "reachable s \<Longrightarrow> reachable (after (hintServerDown s locator))"
| tabletsRecovered: "reachable s \<Longrightarrow> reachable (after (tabletsRecovered s tablets))"


section \<open>Example states\<close>

text \<open>The calls of a handler that start a recovery.\<close>

fun isRecoveryCall :: "call \<Rightarrow> bool" where
  "isRecoveryCall (MockRecoveryCall sid w ms bs) = True"
| "isRecoveryCall (RecoveryStart sid w ms bs) = True"
| "isRecoveryCall c = False"

text \<open>
  Two masters are enlisted and table \<open>t\<close> is created: its tablet and its will entry go
  to the first master.
\<close>

definition two_masters_example :: CoordinatorServer where
  "two_masters_example = CoordinatorServer_init\<lparr>
     nextServerId := 3,
     masterList :=
       [\<lparr>server_type = MASTER, entry_server_id = 1,
          entry_service_locator = ''mock:host=m1'',
          entry_user_data = [\<lparr>table_id = 0, start_object_id = 0, end_object_id = - 1,
             state = NORMAL, server_id = 0, service_locator = [], user_data = 0\<rparr>]\<rparr>,
        \<lparr>server_type = MASTER, entry_server_id = 2,
          entry_service_locator = ''mock:host=m2'', entry_user_data = []\<rparr>],
     tabletMap := [\<lparr>table_id = 0, start_object_id = 0, end_object_id = - 1,
                     state = NORMAL, server_id = 1,
                     service_locator = ''mock:host=m1'', user_data = 0\<rparr>],
     tables := [''t'' \<mapsto> 0],
     nextTableId := 1\<rparr>"

text \<open>
  One master is enlisted, table \<open>t\<close> is created and the master is then hinted down:
  the table is left with a recovering tablet and no master is enlisted.
\<close>

definition no_master_example :: CoordinatorServer where
  "no_master_example = CoordinatorServer_init\<lparr>
     nextServerId := 2,
     tabletMap := [\<lparr>table_id = 0, start_object_id = 0, end_object_id = - 1,
                     state = RECOVERING, server_id = 1,
                     service_locator = ''mock:host=m1'', user_data = 0\<rparr>],
     tables := [''t'' \<mapsto> 0],
     nextTableId := 1\<rparr>"

text \<open>
  The first of two masters has been hinted down; its tablet is recovering. The request
  \<open>recovered_example\<close> hands the whole range to the second master,
  \<open>mismatch_example\<close> only the keys up to 5.
\<close>

definition recovering_example :: CoordinatorServer where
  "recovering_example = CoordinatorServer_init\<lparr>
     nextServerId := 3,
     masterList := [\<lparr>server_type = MASTER, entry_server_id = 2,
                      entry_service_locator = ''mock:host=m2'', entry_user_data = []\<rparr>],
     tabletMap := [\<lparr>table_id = 0, start_object_id = 0, end_object_id = - 1,
                     state = RECOVERING, server_id = 1,
                     service_locator = ''mock:host=m1'', user_data = 0\<rparr>],
     tables := [''t'' \<mapsto> 0],
     nextTableId := 1\<rparr>"

definition recovered_example :: Tablets where
  "recovered_example = [\<lparr>table_id = 0, start_object_id = 0, end_object_id = - 1,
     state = NORMAL, server_id = 2, service_locator = ''mock:host=m2'', user_data = 0\<rparr>]"

definition mismatch_example :: Tablets where
  "mismatch_example = [\<lparr>table_id = 0, start_object_id = 0, end_object_id = 5,
     state = NORMAL, server_id = 2, service_locator = ''mock:host=m2'', user_data = 0\<rparr>]"

text \<open>
  Three masters are enlisted and the first is hinted down: the last master has moved
  into its place, before the master that enlisted second.
\<close>

definition swapped_masters_example :: CoordinatorServer where
  "swapped_masters_example = CoordinatorServer_init\<lparr>
     nextServerId := 4,
     masterList :=
       [\<lparr>server_type = MASTER, entry_server_id = 3,
          entry_service_locator = ''mock:host=m3'', entry_user_data = []\<rparr>,
        \<lparr>server_type = MASTER, entry_server_id = 2,
          entry_service_locator = ''mock:host=m2'', entry_user_data = []\<rparr>]\<rparr>"

text \<open>The server list of the tests after their first \<^verbatim>\<open>add\<close>: one master in slot 1.\<close>

definition one_server_example :: CoordinatorServerList where
  "one_server_example = snd (add CoordinatorServerList_init ''hi!'' {MASTER_SERVICE} 100)"

text \<open>
  The server list of test \<^verbatim>\<open>sendMembershipUpdate\<close> at its second update (line 418):
  server 5 has taken slot 1 from the removed server 1, server 2 has crashed, server 3
  has no membership service, server 4 has it. \<open>membership_update\<close> is the message
  of that update, \<open>full_example\<close> a snapshot of the list, and \<open>respond_example\<close> the
  answers the test feeds its transport: server 5 reports a lost update.
\<close>

definition membership_example :: CoordinatorServerList where
  "membership_example =
     (let (id1, sl1) = add CoordinatorServerList_init ''mock:host=server1'' {MEMBERSHIP_SERVICE} 0;
          (id2, sl2) = add sl1 ''mock:host=server2'' {} 0;
          sl2' = projr (crashed sl2 id2);
          (id3, sl3) = add sl2' ''mock:host=server3'' {} 0;
          (id4, sl4) = add sl3 ''mock:host=server4'' {MEMBERSHIP_SERVICE} 0;
          sl4' = projr (remove sl4 id1);
          (m1, sl4'') = sendMembershipUpdate (sl4'\<lparr>updates := []\<rparr>) {id4};
          (id5, sl5) = add sl4'' ''mock:host=server5'' {MEMBERSHIP_SERVICE} 0
      in sl5\<lparr>updates := [], version := 0\<rparr>)"

definition entry_example :: "u32 \<Rightarrow> u32 \<Rightarrow> string \<Rightarrow> ServiceMask \<Rightarrow> ServerStatus \<Rightarrow> Entry" where
  "entry_example i g locator serviceMask st =
     \<lparr>serverId = \<lparr>indexNumber = i, generationNumber = g\<rparr>, serviceLocator = locator,
       services = serviceMask, expectedReadMBytesPerSec = 0, status = st, will = None,
       logCabinEntryId = 0\<rparr>"

definition membership_update :: message where
  "membership_update = fst (sendMembershipUpdate membership_example {})"

definition full_example :: ProtoBuf_ServerList where
  "full_example = \<lparr>version_number = 1,
     server = map serialize_entry (liveEntries (serverList membership_example))\<rparr>"

definition respond_example :: "rpc \<Rightarrow> reply" where
  "respond_example m =
     (if recipient m = \<lparr>indexNumber = 1, generationNumber = 1\<rparr> then lost_update else ok)"

section \<open>Properties of the coordinator\<close>

subsection \<open>The example states are reached from the initial state\<close>



lemma swapped_masters_example_reached:
  "after (hintServerDown
     (after (enlistServer
        (after (enlistServer (after (enlistServer CoordinatorServer_init MASTER ''mock:host=m1''))
           MASTER ''mock:host=m2'')) MASTER ''mock:host=m3'')) ''mock:host=m1'')
   = swapped_masters_example"
  by (simp add: enlistServer_def hintServerDown_def after_def CoordinatorServer_init_def
      swapped_masters_example_def Let_def swapRemoveLast_def markRecovering_def)

lemma swapped_masters_example_reachable: "reachable swapped_masters_example"
proof -
  have "reachable (after (hintServerDown
     (after (enlistServer
        (after (enlistServer (after (enlistServer CoordinatorServer_init MASTER ''mock:host=m1''))
           MASTER ''mock:host=m2'')) MASTER ''mock:host=m3'')) ''mock:host=m1''))"
    by (intro reachable.hintServerDown reachable.enlistServer reachable.init)
  then show ?thesis by (simp only: swapped_masters_example_reached)
qed

lemma no_master_example_reached:
  "after (hintServerDown
     (after (createTable (after (enlistServer CoordinatorServer_init MASTER ''mock:host=m1''))
        ''t'')) ''mock:host=m1'') = no_master_example"
  by (simp add: createTable_def enlistServer_def hintServerDown_def after_def
      CoordinatorServer_init_def no_master_example_def Let_def add_tablet_def
      swapRemoveLast_def markRecovering_def)

lemma recovering_example_reached:
  "after (hintServerDown two_masters_example ''mock:host=m1'') = recovering_example"
  by (simp add: hintServerDown_def after_def CoordinatorServer_init_def
      two_masters_example_def recovering_example_def Let_def
      swapRemoveLast_def markRecovering_def)

subsection \<open>The scan for a locator\<close>

lemma firstWithLocator_Some:
  "firstWithLocator loc es = Some i \<Longrightarrow>
     i < length es \<and> entry_service_locator (es ! i) = loc \<and>
     (\<forall>j<i. entry_service_locator (es ! j) \<noteq> loc)"
proof (induction es arbitrary: i)
  case Nil
  then show ?case by simp
next
  case (Cons e es)
  show ?case
  proof (cases "entry_service_locator e = loc")
    case True
    with Cons.prems show ?thesis by simp
  next
    case False
    with Cons.prems obtain k where k: "firstWithLocator loc es = Some k" "i = Suc k"
      by auto
    from Cons.IH [OF k(1)] False k(2) show ?thesis
      by (auto simp: nth_Cons split: nat.splits)
  qed
qed

lemma firstWithLocator_found:
  "\<exists>m \<in> set es. entry_service_locator m = loc \<Longrightarrow> \<exists>i. firstWithLocator loc es = Some i"
  by (induction es) auto

subsection \<open>tabletsRecovered\<close>

text \<open>
  C1, as stated, fails. In the state \<open>recovering_example\<close> the tablet of the dead
  master 1 is recovering. A request that hands its range to master 2 succeeds and the
  tablet map is as before: the recovering entry is still there and the entry of the
  request is not. A request whose range does not match the dead range succeeds as
  well; no mismatch is reported.
\<close>

theorem tabletsRecovered_replaces_counterexample:
  "result (tabletsRecovered recovering_example recovered_example) = Inr () \<and>
   tabletMap (after (tabletsRecovered recovering_example recovered_example))
     = tabletMap recovering_example \<and>
   map state (tabletMap (after (tabletsRecovered recovering_example recovered_example)))
     = [RECOVERING] \<and>
   tabletMap (after (tabletsRecovered recovering_example recovered_example))
     \<noteq> recovered_example \<and>
   result (tabletsRecovered recovering_example mismatch_example) = Inr ()"
  by (simp add: tabletsRecovered_def result_def after_def recovering_example_def
      recovered_example_def CoordinatorServer_init_def)

text \<open>
  C1, amended: for every tabletsRecovered request the handler succeeds, writes the
  number of tablets of the request to the test log and leaves the tablet map as it
  is; the recovering entries of a dead server stay in the map, whether or not the
  tablets of the request match their ranges.
\<close>

theorem tabletsRecovered_keeps_tabletMap:
  "result (tabletsRecovered s tablets) = Inr () \<and>
   calls (tabletsRecovered s tablets) = [TestLog (length tablets)] \<and>
   tabletMap (after (tabletsRecovered s tablets)) = tabletMap s \<and>
   filter (\<lambda>t. state t = RECOVERING) (tabletMap (after (tabletsRecovered s tablets)))
     = filter (\<lambda>t. state t = RECOVERING) (tabletMap s)"
  by (simp add: tabletsRecovered_def result_def after_def calls_def)

text \<open>
  C10: for every request, tabletsRecovered leaves the coordinator as it is: the tablet
  map, the tables, the master list, the backup list, nextTableId and nextServerId are
  the same before and after. The handler returns normally and its only call to the
  outside is the line of the test log.
\<close>

theorem tabletsRecovered_frame:
  "after (tabletsRecovered s tablets) = s \<and>
   tabletMap (after (tabletsRecovered s tablets)) = tabletMap s \<and>
   tables (after (tabletsRecovered s tablets)) = tables s \<and>
   masterList (after (tabletsRecovered s tablets)) = masterList s \<and>
   backupList (after (tabletsRecovered s tablets)) = backupList s \<and>
   nextTableId (after (tabletsRecovered s tablets)) = nextTableId s \<and>
   nextServerId (after (tabletsRecovered s tablets)) = nextServerId s \<and>
   result (tabletsRecovered s tablets) = Inr () \<and>
   calls (tabletsRecovered s tablets) = [TestLog (length tablets)]"
  by (simp add: tabletsRecovered_def result_def after_def calls_def)

subsection \<open>hintServerDown\<close>

text \<open>
  C2: when some master of the list has the hinted locator, the handler picks the first
  such master \<open>m\<close>, at index \<open>i\<close>. It returns normally. The tablet map keeps its
  length and the server id of every tablet; a tablet of \<open>m\<close> is the old tablet with
  state RECOVERING, every other tablet is the old tablet. After the responder the
  handler makes exactly one call, to the recovery engine (the mock when one is set),
  with the id of \<open>m\<close>, the will \<open>m\<close> had when the request arrived, the master list
  without \<open>m\<close> and the backup list.
\<close>

theorem hintServerDown_master:
  assumes "\<exists>m \<in> set (masterList s). entry_service_locator m = loc"
  shows "\<exists>i < length (masterList s).
     entry_service_locator (masterList s ! i) = loc \<and>
     (\<forall>j<i. entry_service_locator (masterList s ! j) \<noteq> loc) \<and>
     (let m = masterList s ! i; out = hintServerDown s loc in
        result out = Inr () \<and>
        length (tabletMap (after out)) = length (tabletMap s) \<and>
        (\<forall>k < length (tabletMap s).
           tabletMap (after out) ! k =
             (if server_id (tabletMap s ! k) = entry_server_id m
              then (tabletMap s ! k)\<lparr>state := RECOVERING\<rparr> else tabletMap s ! k)) \<and>
        (\<forall>t \<in> set (tabletMap (after out)).
           server_id t = entry_server_id m \<longrightarrow> state t = RECOVERING) \<and>
        map server_id (tabletMap (after out)) = map server_id (tabletMap s) \<and>
        calls out =
          [Respond,
           if mockRecovery s
           then MockRecoveryCall (entry_server_id m) (entry_user_data m)
                  (swapRemoveLast i (masterList s)) (backupList s)
           else RecoveryStart (entry_server_id m) (entry_user_data m)
                  (swapRemoveLast i (masterList s)) (backupList s)] \<and>
        length (filter isRecoveryCall (calls out)) = 1)"
proof -
  from assms obtain i where i: "firstWithLocator loc (masterList s) = Some i"
    using firstWithLocator_found by blast
  note first = firstWithLocator_Some [OF i]
  have "result (hintServerDown s loc) = Inr ()"
    using i by (simp add: hintServerDown_def result_def Let_def)
  moreover have "tabletMap (after (hintServerDown s loc))
      = markRecovering (entry_server_id (masterList s ! i)) (tabletMap s)"
    using i by (simp add: hintServerDown_def after_def Let_def)
  moreover have "calls (hintServerDown s loc) =
          [Respond,
           if mockRecovery s
           then MockRecoveryCall (entry_server_id (masterList s ! i))
                  (entry_user_data (masterList s ! i))
                  (swapRemoveLast i (masterList s)) (backupList s)
           else RecoveryStart (entry_server_id (masterList s ! i))
                  (entry_user_data (masterList s ! i))
                  (swapRemoveLast i (masterList s)) (backupList s)]"
    using i by (simp add: hintServerDown_def calls_def Let_def)
  ultimately show ?thesis
    using first by (intro exI [of _ i]) (auto simp: Let_def markRecovering_def)
qed

theorem hintServerDown_master_witness:
  "(\<exists>m \<in> set (masterList two_masters_example). entry_service_locator m = ''mock:host=m1'') \<and>
   result (hintServerDown two_masters_example ''mock:host=m1'') = Inr () \<and>
   tabletMap (after (hintServerDown two_masters_example ''mock:host=m1'')) =
     [\<lparr>table_id = 0, start_object_id = 0, end_object_id = - 1, state = RECOVERING,
       server_id = 1, service_locator = ''mock:host=m1'', user_data = 0\<rparr>] \<and>
   length (filter isRecoveryCall
     (calls (hintServerDown two_masters_example ''mock:host=m1''))) = 1"
proof -
  have h: "\<exists>m \<in> set (masterList two_masters_example).
      entry_service_locator m = ''mock:host=m1''"
    by (simp add: two_masters_example_def CoordinatorServer_init_def)
  from hintServerDown_master [OF h] obtain i where
    "length (filter isRecoveryCall
       (calls (hintServerDown two_masters_example ''mock:host=m1''))) = 1"
    by (auto simp: Let_def)
  moreover have "result (hintServerDown two_masters_example ''mock:host=m1'') = Inr ()"
    "tabletMap (after (hintServerDown two_masters_example ''mock:host=m1'')) =
     [\<lparr>table_id = 0, start_object_id = 0, end_object_id = - 1, state = RECOVERING,
       server_id = 1, service_locator = ''mock:host=m1'', user_data = 0\<rparr>]"
    by (simp_all add: hintServerDown_def result_def after_def two_masters_example_def
        CoordinatorServer_init_def Let_def markRecovering_def)
  ultimately show ?thesis using h by blast
qed

subsection \<open>createTable\<close>

text \<open>
  C3: createTable throws RetryException exactly when the master list is empty (a
  master is up from its enlistment until it is hinted down, that is, while it is in
  the list), and it then leaves the whole state as it is. In particular, from the
  initial state createTable of any name throws RetryException, and the tables, the
  tablet map and nextTableId are those of the initial state.
\<close>

theorem createTable_RetryException:
  "(result (createTable s name) = Inl RetryException) = (masterList s = []) \<and>
   (masterList s = [] \<longrightarrow> createTable s name = (Inl RetryException, [], s)) \<and>
   result (createTable CoordinatorServer_init name) = Inl RetryException \<and>
   tables (after (createTable CoordinatorServer_init name)) = tables CoordinatorServer_init \<and>
   tabletMap (after (createTable CoordinatorServer_init name))
     = tabletMap CoordinatorServer_init \<and>
   nextTableId (after (createTable CoordinatorServer_init name))
     = nextTableId CoordinatorServer_init"
  by (simp add: createTable_def result_def after_def CoordinatorServer_init_def Let_def)

theorem createTable_RetryException_witness:
  "masterList CoordinatorServer_init = [] \<and>
   createTable CoordinatorServer_init ''x'' = (Inl RetryException, [], CoordinatorServer_init) \<and>
   masterList two_masters_example \<noteq> [] \<and>
   result (createTable two_masters_example ''x'') \<noteq> Inl RetryException"
  using createTable_RetryException [of CoordinatorServer_init "''x''"]
    createTable_RetryException [of two_masters_example "''x''"]
  by (simp add: CoordinatorServer_init_def two_masters_example_def)

text \<open>
  C4, as stated, fails. In \<open>swapped_masters_example\<close> the masters 2 and 3 are up and
  master 2 enlisted first, but the hint that took master 1 out of the list has moved
  master 3 to the front. createTable gives the tablet of the new table to master 3.
\<close>

theorem createTable_first_master_counterexample:
  "map entry_server_id (masterList swapped_masters_example) = [3, 2] \<and>
   Min (entry_server_id ` set (masterList swapped_masters_example)) = 2 \<and>
   result (createTable swapped_masters_example ''foo'') = Inr () \<and>
   map server_id (tabletMap (after (createTable swapped_masters_example ''foo''))) = [3] \<and>
   map service_locator (tabletMap (after (createTable swapped_masters_example ''foo'')))
     = [''mock:host=m3'']"
  by (simp add: createTable_def result_def after_def swapped_masters_example_def
      CoordinatorServer_init_def Let_def add_tablet_def)

text \<open>
  C4, amended: with a master in the list and a name that is not a table yet,
  createTable returns normally, takes the table id from nextTableId and advances the
  counter by one, stores the id under the name, and appends exactly one tablet to the
  tablet map: it has that table id, starts at 0 and ends at \<open>2^64 - 1\<close>, is NORMAL,
  and carries the server id and the locator of the master at the front of the master
  list. That master is the one that enlisted first among the masters of the list (the
  one with the least server id) while the list is in the order of enlistment, which a
  hintServerDown can break. The id passes through a 32-bit variable, so it is the
  counter itself while the counter is below \<open>2^32\<close>.
\<close>

theorem createTable_new_table:
  assumes "masterList s \<noteq> []" and "tables s name = None"
  shows "result (createTable s name) = Inr () \<and>
    nextTableId (after (createTable s name)) = nextTableId s + 1 \<and>
    tables (after (createTable s name)) = (tables s)(name \<mapsto> ucast (nextTableId s)) \<and>
    tabletMap (after (createTable s name)) = tabletMap s @
      [\<lparr>table_id = ucast (ucast (nextTableId s) :: u32), start_object_id = 0,
        end_object_id = - 1, state = NORMAL,
        server_id = entry_server_id (masterList s ! 0),
        service_locator = entry_service_locator (masterList s ! 0), user_data = 0\<rparr>] \<and>
    unat (end_object_id (last (tabletMap (after (createTable s name))))) = 2 ^ 64 - 1 \<and>
    (unat (nextTableId s) < 2 ^ 32 \<longrightarrow>
       table_id (last (tabletMap (after (createTable s name)))) = nextTableId s) \<and>
    (sorted (map entry_server_id (masterList s)) \<longrightarrow>
       server_id (last (tabletMap (after (createTable s name)))) =
         Min (entry_server_id ` set (masterList s)))"
proof -
  have "Min (entry_server_id ` set (masterList s)) = entry_server_id (masterList s ! 0)"
    if "sorted (map entry_server_id (masterList s))"
  proof -
    from assms(1) obtain m ms where ml: "masterList s = m # ms"
      by (cases "masterList s") auto
    with that have "\<forall>y \<in> entry_server_id ` set (masterList s). entry_server_id m \<le> y"
      by auto
    then have "Min (entry_server_id ` set (masterList s)) = entry_server_id m"
      using ml by (intro Min_eqI) auto
    with ml show ?thesis by simp
  qed
  moreover have "unat (nextTableId s) < 2 ^ 32 \<Longrightarrow>
      ucast (ucast (nextTableId s) :: u32) = nextTableId s"
    by (simp add: word_unat_eq_iff unsigned_ucast_eq unsigned_take_bit_eq
        take_bit_nat_eq_self)
  moreover have "unat (- 1 :: u64) = 2 ^ 64 - 1"
    by (simp add: unsigned_minus_1_eq_mask mask_eq_exp_minus_1)
  ultimately show ?thesis
    using assms
    by (simp add: createTable_def result_def after_def Let_def add_tablet_def)
qed

theorem createTable_new_table_witness:
  "masterList two_masters_example \<noteq> [] \<and> tables two_masters_example ''foo'' = None \<and>
   result (createTable two_masters_example ''foo'') = Inr () \<and>
   nextTableId (after (createTable two_masters_example ''foo'')) = 2 \<and>
   tabletMap (after (createTable two_masters_example ''foo'')) =
     tabletMap two_masters_example @
      [\<lparr>table_id = 1, start_object_id = 0, end_object_id = - 1, state = NORMAL,
        server_id = 1, service_locator = ''mock:host=m1'', user_data = 0\<rparr>] \<and>
   sorted (map entry_server_id (masterList two_masters_example)) \<and>
   Min (entry_server_id ` set (masterList two_masters_example)) = 1"
proof -
  have h: "masterList two_masters_example \<noteq> []" "tables two_masters_example ''foo'' = None"
    by (simp_all add: two_masters_example_def CoordinatorServer_init_def)
  have o: "sorted (map entry_server_id (masterList two_masters_example))"
    by (simp add: two_masters_example_def CoordinatorServer_init_def)
  show ?thesis
    using h o createTable_new_table [OF h]
    by (simp add: two_masters_example_def CoordinatorServer_init_def)
qed



subsection \<open>The wills of the reachable states\<close>








subsection \<open>dropTable\<close>

text \<open>
  The loop of dropTable deletes the tablets of the table and no other: up to their
  order, the tablets left are the tablets of the other tables.
\<close>

lemma take_swapRemoveLast:
  assumes "i < length xs"
  shows "take i (swapRemoveLast i xs) = take i xs"
proof -
  from assms have "i \<le> length xs - 1" by simp
  then show ?thesis
    by (simp add: swapRemoveLast_def butlast_conv_take min_def)
qed

lemma drop_swapRemoveLast:
  assumes "i < length xs"
  shows "mset (drop i (swapRemoveLast i xs)) = mset (drop (Suc i) xs)"
proof (cases "i = length xs - 1")
  case True
  then show ?thesis
    using assms by (simp add: swapRemoveLast_def butlast_conv_take)
next
  case False
  with assms have i: "i < length xs - 1" by simp
  have xs: "xs = butlast xs @ [last xs]"
    using assms by (cases xs rule: rev_cases) auto
  have "xs \<noteq> []" using assms by auto
  then have l: "xs ! (length xs - 1) = last xs"
    by (simp add: last_conv_nth)
  have "swapRemoveLast i xs = (butlast xs)[i := last xs]"
    using i l by (simp add: swapRemoveLast_def butlast_list_update)
  then have "drop i (swapRemoveLast i xs) = last xs # drop (Suc i) (butlast xs)"
    using i by (simp add: drop_update_cancel Cons_nth_drop_Suc [symmetric] upd_conv_take_nth_drop)
  moreover have "drop (Suc i) xs = drop (Suc i) (butlast xs) @ [last xs]"
    using i by (subst xs) simp
  ultimately show ?thesis by simp
qed

lemma mset_dropLoop:
  "i \<le> length ts \<Longrightarrow> mset (dropLoop tableId i ts) =
     mset (take i ts) + filter_mset (\<lambda>t. table_id t \<noteq> ucast tableId) (mset (drop i ts))"
proof (induction tableId i ts rule: dropLoop.induct)
  case (1 tableId i ts)
  show ?case
  proof (cases "i < length ts")
    case False
    with "1.prems" show ?thesis by (simp add: dropLoop.simps)
  next
    case True
    note lt = this
    show ?thesis
    proof (cases "table_id (ts ! i) = ucast tableId")
      case True
      have "mset (dropLoop tableId i ts) = mset (dropLoop tableId i (swapRemoveLast i ts))"
        using lt True by (subst dropLoop.simps) simp
      also have "\<dots> = mset (take i (swapRemoveLast i ts)) +
          filter_mset (\<lambda>t. table_id t \<noteq> ucast tableId) (mset (drop i (swapRemoveLast i ts)))"
        using "1.IH"(1) [OF lt True] lt by (simp add: swapRemoveLast_def)
      also have "\<dots> = mset (take i ts) +
          filter_mset (\<lambda>t. table_id t \<noteq> ucast tableId) (mset (drop (Suc i) ts))"
        using lt by (simp add: take_swapRemoveLast drop_swapRemoveLast)
      also have "\<dots> = mset (take i ts) +
          filter_mset (\<lambda>t. table_id t \<noteq> ucast tableId) (mset (drop i ts))"
        using lt True by (simp add: Cons_nth_drop_Suc [symmetric])
      finally show ?thesis .
    next
      case False
      have "mset (dropLoop tableId i ts) = mset (dropLoop tableId (Suc i) ts)"
        using lt False by (subst dropLoop.simps) simp
      also have "\<dots> = mset (take (Suc i) ts) +
          filter_mset (\<lambda>t. table_id t \<noteq> ucast tableId) (mset (drop (Suc i) ts))"
        using "1.IH"(2) [OF lt False] lt by simp
      also have "\<dots> = mset (take i ts) +
          filter_mset (\<lambda>t. table_id t \<noteq> ucast tableId) (mset (drop i ts))"
        using lt False by (simp add: Cons_nth_drop_Suc [symmetric] take_Suc_conv_app_nth)
      finally show ?thesis .
    qed
  qed
qed

lemma dropLoop_deletes:
  "mset (dropLoop tableId 0 ts) = filter_mset (\<lambda>t. table_id t \<noteq> ucast tableId) (mset ts)"
  using mset_dropLoop [of 0 ts tableId] by simp

text \<open>
  C9: dropTable of an existing table first removes the name and deletes the tablets
  of the table, and then reads the locator of element 0 of the master list, whatever
  the list holds. With a master in the list the read is in range and the tablet map
  is sent to that master. With an empty list the read is out of range. Nothing rejects
  the request before: dropTable never throws RetryException, where createTable in the
  same state does.
\<close>

theorem dropTable_first_master:
  assumes "tables s name = Some tableId"
  shows "tables (after (dropTable s name)) = (tables s)(name := None) \<and>
    tabletMap (after (dropTable s name)) = dropLoop tableId 0 (tabletMap s) \<and>
    mset (tabletMap (after (dropTable s name))) =
      filter_mset (\<lambda>t. table_id t \<noteq> ucast tableId) (mset (tabletMap s)) \<and>
    (masterList s = [] \<longrightarrow>
       result (dropTable s name) = Inl IndexOutOfRange \<and> calls (dropTable s name) = []) \<and>
    (masterList s \<noteq> [] \<longrightarrow>
       result (dropTable s name) = Inr () \<and>
       calls (dropTable s name) =
         [SetTablets (entry_service_locator (masterList s ! 0))
            (dropLoop tableId 0 (tabletMap s))]) \<and>
    result (dropTable s name) \<noteq> Inl RetryException \<and>
    (masterList s = [] \<longrightarrow> result (createTable s name) = Inl RetryException)"
  using assms
  by (simp add: dropTable_def createTable_def result_def after_def calls_def Let_def
      dropLoop_deletes)

theorem dropTable_first_master_witness:
  "tables no_master_example ''t'' = Some 0 \<and> masterList no_master_example = [] \<and>
   result (dropTable no_master_example ''t'') = Inl IndexOutOfRange \<and>
   tabletMap (after (dropTable no_master_example ''t'')) = [] \<and>
   tables two_masters_example ''t'' = Some 0 \<and> masterList two_masters_example \<noteq> [] \<and>
   result (dropTable two_masters_example ''t'') = Inr () \<and>
   calls (dropTable two_masters_example ''t'') = [SetTablets ''mock:host=m1'' []]"
proof -
  have h1: "tables no_master_example ''t'' = Some 0" "masterList no_master_example = []"
    by (simp_all add: no_master_example_def CoordinatorServer_init_def)
  have h2: "tables two_masters_example ''t'' = Some 0" "masterList two_masters_example \<noteq> []"
    by (simp_all add: two_masters_example_def CoordinatorServer_init_def)
  have d1: "dropLoop 0 0 (tabletMap no_master_example) = []"
    by (simp add: no_master_example_def CoordinatorServer_init_def dropLoop.simps
        swapRemoveLast_def)
  have d2: "dropLoop 0 0 (tabletMap two_masters_example) = []"
    by (simp add: two_masters_example_def CoordinatorServer_init_def dropLoop.simps
        swapRemoveLast_def)
  show ?thesis
    using h1 h2 dropTable_first_master [OF h1(1)] dropTable_first_master [OF h2(1)] d1 d2
    by (simp add: two_masters_example_def CoordinatorServer_init_def)
qed

section \<open>Properties of the server list\<close>

subsection \<open>The first add of the tests\<close>

lemma firstFreeIndex_Nil:
  "firstFreeIndex [] = (1, [\<lparr>nextGenerationNumber = 0, entry = None\<rparr>,
     \<lparr>nextGenerationNumber = 0, entry = None\<rparr>])"
  by (simp add: firstFreeIndex_def Let_def numeral_2_eq_2)

lemma one_server_example_eq:
  "one_server_example = \<lparr>serverList =
     [\<lparr>nextGenerationNumber = 0, entry = None\<rparr>,
      \<lparr>nextGenerationNumber = 1,
        entry = Some \<lparr>serverId = \<lparr>indexNumber = 1, generationNumber = 0\<rparr>,
          serviceLocator = ''hi!'', services = {MASTER_SERVICE},
          expectedReadMBytesPerSec = 0, status = UP, will = Some [],
          logCabinEntryId = 0\<rparr>\<rparr>],
     numberOfMasters = 1, numberOfBackups = 0, version = 0,
     updates = [\<lparr>pb_services = {MASTER_SERVICE},
        pb_server_id = \<lparr>indexNumber = 1, generationNumber = 0\<rparr>,
        pb_service_locator = ''hi!'', pb_expected_read_mbytes_per_sec = 0,
        pb_status = UP\<rparr>]\<rparr>"
  by (simp add: one_server_example_def add_def firstFreeIndex_Nil
      CoordinatorServerList_init_def serialize_entry_def Let_def)

subsection \<open>Looking up a server id\<close>

lemma getReferenceFromServerId_Inr:
  "getReferenceFromServerId sl sid = Inr e \<longleftrightarrow>
     unat (indexNumber sid) < length (serverList sl) \<and>
     entry (serverList sl ! unat (indexNumber sid)) = Some e \<and> serverId e = sid"
  by (auto simp: getReferenceFromServerId_def Let_def split: option.splits)

lemma getReferenceFromServerId_error:
  "getReferenceFromServerId sl sid = Inl err \<Longrightarrow> err = InvalidServerId"
  by (auto simp: getReferenceFromServerId_def Let_def split: option.splits if_splits)


lemma crashed_UP:
  assumes "getReferenceFromServerId sl sid = Inr e" and "status e = UP"
  shows "crashed sl sid = Inr (sl\<lparr>serverList := (serverList sl)[unat (indexNumber sid) :=
        (serverList sl ! unat (indexNumber sid))\<lparr>entry := Some (e\<lparr>status := CRASHED\<rparr>)\<rparr>],
      numberOfMasters :=
        numberOfMasters sl - (if MASTER_SERVICE \<in> services e then 1 else 0),
      numberOfBackups :=
        numberOfBackups sl - (if BACKUP_SERVICE \<in> services e then 1 else 0),
      updates := updates sl @ [serialize_entry (e\<lparr>status := CRASHED\<rparr>)]\<rparr>)"
  using assms by (simp add: crashed_def Let_def)

lemma crashed_CRASHED:
  assumes "getReferenceFromServerId sl sid = Inr e" and "status e = CRASHED"
  shows "crashed sl sid = Inr sl"
  using assms by (simp add: crashed_def)

subsection \<open>crashed\<close>

text \<open>
  C8: for every live entry, crashed on an entry that is already CRASHED returns the
  server list as it is, so nothing is added to the pending updates. On an entry that
  is UP, crashed appends one CRASHED record of this server to the pending updates,
  and a second crashed right after the first returns the list of the first: the two
  calls together have appended exactly that one record.
\<close>

theorem crashed_idempotent:
  assumes "getReferenceFromServerId sl sid = Inr e"
  shows "(status e = CRASHED \<longrightarrow> crashed sl sid = Inr sl) \<and>
     (status e = UP \<longrightarrow>
        (\<exists>sl1. crashed sl sid = Inr sl1 \<and> crashed sl1 sid = Inr sl1 \<and>
           getReferenceFromServerId sl1 sid = Inr (e\<lparr>status := CRASHED\<rparr>) \<and>
           updates sl1 = updates sl @ [serialize_entry (e\<lparr>status := CRASHED\<rparr>)] \<and>
           pb_status (last (updates sl1)) = CRASHED \<and>
           pb_server_id (last (updates sl1)) = sid))"
proof (intro conjI impI)
  assume "status e = CRASHED"
  with assms show "crashed sl sid = Inr sl" by (rule crashed_CRASHED)
next
  assume up: "status e = UP"
  let ?e' = "e\<lparr>status := CRASHED\<rparr>"
  let ?sl1 = "sl\<lparr>serverList := (serverList sl)[unat (indexNumber sid) :=
        (serverList sl ! unat (indexNumber sid))\<lparr>entry := Some ?e'\<rparr>],
      numberOfMasters :=
        numberOfMasters sl - (if MASTER_SERVICE \<in> services e then 1 else 0),
      numberOfBackups :=
        numberOfBackups sl - (if BACKUP_SERVICE \<in> services e then 1 else 0),
      updates := updates sl @ [serialize_entry ?e']\<rparr>"
  have first: "crashed sl sid = Inr ?sl1"
    using assms up by (rule crashed_UP)
  have look: "getReferenceFromServerId ?sl1 sid = Inr ?e'"
    using assms by (simp add: getReferenceFromServerId_Inr)
  have second: "crashed ?sl1 sid = Inr ?sl1"
    using look by (rule crashed_CRASHED) simp
  have "pb_status (last (updates ?sl1)) = CRASHED"
    "pb_server_id (last (updates ?sl1)) = sid"
    using assms by (simp_all add: serialize_entry_def getReferenceFromServerId_Inr)
  with first second look
  show "\<exists>sl1. crashed sl sid = Inr sl1 \<and> crashed sl1 sid = Inr sl1 \<and>
           getReferenceFromServerId sl1 sid = Inr ?e' \<and>
           updates sl1 = updates sl @ [serialize_entry ?e'] \<and>
           pb_status (last (updates sl1)) = CRASHED \<and>
           pb_server_id (last (updates sl1)) = sid"
    by (intro exI [of _ ?sl1]) simp
qed


theorem crashed_idempotent_witness:
  "(\<exists>e. getReferenceFromServerId one_server_example
          \<lparr>indexNumber = 1, generationNumber = 0\<rparr> = Inr e \<and> status e = UP) \<and>
   (\<exists>sl1. crashed one_server_example \<lparr>indexNumber = 1, generationNumber = 0\<rparr> = Inr sl1 \<and>
      crashed sl1 \<lparr>indexNumber = 1, generationNumber = 0\<rparr> = Inr sl1 \<and>
      map pb_status (updates sl1) = [UP, CRASHED])"
proof -
  let ?sid = "\<lparr>indexNumber = 1, generationNumber = 0\<rparr>"
  let ?e = "\<lparr>serverId = ?sid, serviceLocator = ''hi!'', services = {MASTER_SERVICE},
          expectedReadMBytesPerSec = 0, status = UP, will = Some [],
          logCabinEntryId = 0\<rparr>"
  have look: "getReferenceFromServerId one_server_example ?sid = Inr ?e"
    by (simp add: getReferenceFromServerId_Inr one_server_example_eq)
  have up: "status ?e = UP" by simp
  from crashed_idempotent [OF look, THEN conjunct2, THEN mp, OF up]
  have "\<exists>sl1. crashed one_server_example ?sid = Inr sl1 \<and> crashed sl1 ?sid = Inr sl1 \<and>
      getReferenceFromServerId sl1 ?sid = Inr (?e\<lparr>status := CRASHED\<rparr>) \<and>
      updates sl1 = updates one_server_example @ [serialize_entry (?e\<lparr>status := CRASHED\<rparr>)] \<and>
      pb_status (last (updates sl1)) = CRASHED \<and> pb_server_id (last (updates sl1)) = ?sid"
    .
  then obtain sl1 where
    sl1: "crashed one_server_example ?sid = Inr sl1" "crashed sl1 ?sid = Inr sl1"
      "updates sl1 = updates one_server_example @ [serialize_entry (?e\<lparr>status := CRASHED\<rparr>)]"
    by (elim exE conjE)
  have st: "map pb_status (updates sl1) = [UP, CRASHED]"
    by (simp add: sl1(3) one_server_example_eq serialize_entry_def)
  have a: "\<exists>e. getReferenceFromServerId one_server_example ?sid = Inr e \<and> status e = UP"
    using look up by (intro exI [of _ ?e] conjI)
  have b: "\<exists>sl1. crashed one_server_example ?sid = Inr sl1 \<and> crashed sl1 ?sid = Inr sl1 \<and>
      map pb_status (updates sl1) = [UP, CRASHED]"
    using sl1(1,2) st by (intro exI [of _ sl1] conjI)
  from a b show ?thesis by (rule conjI)
qed

subsection \<open>remove\<close>






text \<open>
  Every id that add issues leaves the generation counter of its slot one above the
  generation of the id.
\<close>

lemma add_advances_generation:
  assumes "fst (firstFreeIndex (serverList sl)) < 2 ^ 32"
  shows "nextGenerationNumber
      (serverList (snd (add sl locator serviceMask readSpeed)) !
         unat (indexNumber (fst (add sl locator serviceMask readSpeed)))) =
    generationNumber (fst (add sl locator serviceMask readSpeed)) + 1"
proof -
  obtain index slots where ff: "firstFreeIndex (serverList sl) = (index, slots)"
    by (cases "firstFreeIndex (serverList sl)")
  have len: "index < length slots"
    using ff by (auto simp: firstFreeIndex_def Let_def split: if_splits)
  have "unat (word_of_nat index :: u32) = index"
    using assms ff by (simp add: unat_of_nat take_bit_nat_eq_self)
  then show ?thesis
    using len by (simp add: add_def ff Let_def)
qed

text \<open>The first \<^verbatim>\<open>remove\<close> of test \<^verbatim>\<open>remove\<close> (line 228).\<close>

lemma remove_one_server_example:
  "remove one_server_example \<lparr>indexNumber = 1, generationNumber = 0\<rparr> =
     Inr \<lparr>serverList = [\<lparr>nextGenerationNumber = 0, entry = None\<rparr>,
                         \<lparr>nextGenerationNumber = 1, entry = None\<rparr>],
          numberOfMasters = 0, numberOfBackups = 0, version = 0,
          updates = [\<lparr>pb_services = {MASTER_SERVICE},
              pb_server_id = \<lparr>indexNumber = 1, generationNumber = 0\<rparr>,
              pb_service_locator = ''hi!'', pb_expected_read_mbytes_per_sec = 0,
              pb_status = UP\<rparr>,
            \<lparr>pb_services = {MASTER_SERVICE},
              pb_server_id = \<lparr>indexNumber = 1, generationNumber = 0\<rparr>,
              pb_service_locator = ''hi!'', pb_expected_read_mbytes_per_sec = 0,
              pb_status = CRASHED\<rparr>,
            \<lparr>pb_services = {MASTER_SERVICE},
              pb_server_id = \<lparr>indexNumber = 1, generationNumber = 0\<rparr>,
              pb_service_locator = ''hi!'', pb_expected_read_mbytes_per_sec = 0,
              pb_status = DOWN\<rparr>]\<rparr>"
  by (simp add: one_server_example_eq remove_def crashed_def getReferenceFromServerId_def
      serialize_entry_def Let_def)

text \<open>
  After the first \<^verbatim>\<open>add\<close> and a \<^verbatim>\<open>remove\<close> that incremented the counter, the next
  \<^verbatim>\<open>add\<close> would issue the id (1, 2); after \<open>remove\<close> it issues (1, 1), the id that
  test \<^verbatim>\<open>remove\<close> goes on to use (line 240).
\<close>

lemma remove_as_specified_against_test:
  "fst (add (projr (remove_as_specified one_server_example
          \<lparr>indexNumber = 1, generationNumber = 0\<rparr>)) ''hi, again'' {BACKUP_SERVICE} 100) =
     \<lparr>indexNumber = 1, generationNumber = 2\<rparr> \<and>
   fst (add (projr (remove one_server_example
          \<lparr>indexNumber = 1, generationNumber = 0\<rparr>)) ''hi, again'' {BACKUP_SERVICE} 100) =
     \<lparr>indexNumber = 1, generationNumber = 1\<rparr>"
  by (simp add: remove_as_specified_def remove_one_server_example add_def
      firstFreeIndex_def Let_def)





subsection \<open>Membership updates\<close>

lemma updateRecipient_recipient:
  "m \<in> set (fst (updateRecipient respond full msg e known)) \<Longrightarrow>
     recipient m = serverId e \<and> isRecipient msg e"
  by (auto simp: updateRecipient_def split: if_splits reply.splits)

lemma updateRecipient_other:
  "r \<noteq> serverId e \<Longrightarrow> snd (updateRecipient respond full msg e known) r = known r"
  by (auto simp: updateRecipient_def split: reply.splits)

lemma updateRecipient_known:
  "known (serverId e) = known' (serverId e) \<Longrightarrow>
     fst (updateRecipient respond full msg e known) =
       fst (updateRecipient respond full msg e known') \<and>
     snd (updateRecipient respond full msg e known) (serverId e) =
       snd (updateRecipient respond full msg e known') (serverId e)"
  by (auto simp: updateRecipient_def split: reply.splits)

lemma sentTo_append: "sentTo r (xs @ ys) = sentTo r xs @ sentTo r ys"
  by (simp add: sentTo_def)

lemma sentTo_updateRecipient:
  "sentTo r (fst (updateRecipient respond full msg e known)) =
     (if r = serverId e then fst (updateRecipient respond full msg e known) else [])"
  by (auto simp: sentTo_def updateRecipient_def split: reply.splits)

lemma updateEntries_other:
  "r \<notin> serverId ` set es \<Longrightarrow>
     sentTo r (fst (updateEntries respond full msg es known)) = [] \<and>
     snd (updateEntries respond full msg es known) r = known r"
proof (induction es arbitrary: known)
  case Nil
  then show ?case by (simp add: sentTo_def)
next
  case (Cons e es)
  then have r: "r \<noteq> serverId e" "r \<notin> serverId ` set es" by auto
  from Cons.IH [OF r(2), of "snd (updateRecipient respond full msg e known)"] r(1)
  show ?case
    by (simp add: split_beta Let_def sentTo_append sentTo_updateRecipient
        updateRecipient_other)
qed

lemma updateEntries_recipient:
  "m \<in> set (fst (updateEntries respond full msg es known)) \<Longrightarrow>
     \<exists>e \<in> set es. recipient m = serverId e \<and> isRecipient msg e"
proof (induction es arbitrary: known)
  case Nil
  then show ?case by simp
next
  case (Cons e es)
  then show ?case
    by (auto simp: split_beta Let_def dest: updateRecipient_recipient)
qed

lemma updateEntries_one:
  "distinct (map serverId es) \<Longrightarrow> e \<in> set es \<Longrightarrow>
     sentTo (serverId e) (fst (updateEntries respond full msg es known)) =
       fst (updateRecipient respond full msg e known) \<and>
     snd (updateEntries respond full msg es known) (serverId e) =
       snd (updateRecipient respond full msg e known) (serverId e)"
proof (induction es arbitrary: known)
  case Nil
  then show ?case by simp
next
  case (Cons x es)
  let ?known = "snd (updateRecipient respond full msg x known)"
  show ?case
  proof (cases "e = x")
    case True
    with Cons.prems have "serverId e \<notin> serverId ` set es" by auto
    from updateEntries_other [OF this, of respond full msg ?known] True
    show ?thesis
      by (simp add: split_beta Let_def sentTo_append sentTo_updateRecipient)
  next
    case False
    with Cons.prems have e: "e \<in> set es" "distinct (map serverId es)"
      by auto
    have "serverId x \<notin> set (map serverId es)"
      using Cons.prems(1) by simp
    moreover have "serverId e \<in> set (map serverId es)"
      using e(1) by simp
    ultimately have ne: "serverId e \<noteq> serverId x"
      by metis
    have same: "?known (serverId e) = known (serverId e)"
      using ne by (rule updateRecipient_other)
    from updateRecipient_known [of ?known e known respond full msg, OF same]
      Cons.IH [OF e(2) e(1), of ?known] ne
    show ?thesis
      by (simp add: split_beta Let_def sentTo_append sentTo_updateRecipient)
  qed
qed

text \<open>
  C6: in the dispatch of one membership update over a server list whose live entries
  have distinct ids, every message sent goes to a live entry that is UP, has the
  membership service and is not excluded; so an entry that is crashed, has no
  membership service or is excluded receives nothing and keeps its recorded version,
  and a removed server, which has no entry, receives nothing. An entry that does
  qualify and whose recorded version is the version of the update minus 1 is sent the
  incremental update; when it answers ok nothing else is sent to it and the version of
  the update is recorded for it; when it answers lost_update the full list follows
  at once. An entry that qualifies and has any other recorded version is sent the
  full list and no incremental update.
\<close>

theorem dispatchUpdate_protocol:
  assumes "distinct (map serverId (liveEntries (serverList sl)))"
    and "e \<in> set (liveEntries (serverList sl))"
  shows "let r = serverId e; v = version_number (update msg);
             out = fst (dispatchUpdate respond full msg sl known);
             known' = snd (dispatchUpdate respond full msg sl known)
         in (\<forall>m \<in> set out. \<exists>e' \<in> set (liveEntries (serverList sl)).
               recipient m = serverId e' \<and> status e' = UP \<and>
               MEMBERSHIP_SERVICE \<in> services e' \<and> serverId e' \<notin> exclude msg) \<and>
            (\<not> (status e = UP \<and> MEMBERSHIP_SERVICE \<in> services e \<and> r \<notin> exclude msg) \<longrightarrow>
               sentTo r out = [] \<and> known' r = known r) \<and>
            (status e = UP \<and> MEMBERSHIP_SERVICE \<in> services e \<and> r \<notin> exclude msg \<longrightarrow>
               (known r = v - 1 \<and> respond (UpdateServerList r (update msg)) = ok \<longrightarrow>
                  sentTo r out = [UpdateServerList r (update msg)] \<and> known' r = v) \<and>
               (known r = v - 1 \<and> respond (UpdateServerList r (update msg)) = lost_update \<longrightarrow>
                  sentTo r out = [UpdateServerList r (update msg), SetServerList r full]) \<and>
               (known r \<noteq> v - 1 \<longrightarrow> sentTo r out = [SetServerList r full]))"
proof -
  note one = updateEntries_one [OF assms, of respond full msg known]
  have all: "\<forall>m \<in> set (fst (dispatchUpdate respond full msg sl known)).
      \<exists>e' \<in> set (liveEntries (serverList sl)).
        recipient m = serverId e' \<and> status e' = UP \<and>
        MEMBERSHIP_SERVICE \<in> services e' \<and> serverId e' \<notin> exclude msg"
    using updateEntries_recipient [of _ respond full msg "liveEntries (serverList sl)" known]
    by (fastforce simp: dispatchUpdate_def isRecipient_def)
  show ?thesis
    unfolding Let_def
    apply (intro conjI)
      apply (rule all)
    using one apply (simp add: dispatchUpdate_def updateRecipient_def isRecipient_def)
    using one apply (auto simp: dispatchUpdate_def updateRecipient_def isRecipient_def)
    done
qed

lemma firstFreeIndex_examples:
  "firstFreeIndex [a, \<lparr>nextGenerationNumber = g1, entry = Some e1\<rparr>] =
     (2, [a, \<lparr>nextGenerationNumber = g1, entry = Some e1\<rparr>,
          \<lparr>nextGenerationNumber = 0, entry = None\<rparr>])"
  "firstFreeIndex [a, \<lparr>nextGenerationNumber = g1, entry = Some e1\<rparr>,
       \<lparr>nextGenerationNumber = g2, entry = Some e2\<rparr>] =
     (3, [a, \<lparr>nextGenerationNumber = g1, entry = Some e1\<rparr>,
          \<lparr>nextGenerationNumber = g2, entry = Some e2\<rparr>,
          \<lparr>nextGenerationNumber = 0, entry = None\<rparr>])"
  "firstFreeIndex [a, \<lparr>nextGenerationNumber = g1, entry = Some e1\<rparr>,
       \<lparr>nextGenerationNumber = g2, entry = Some e2\<rparr>,
       \<lparr>nextGenerationNumber = g3, entry = Some e3\<rparr>] =
     (4, [a, \<lparr>nextGenerationNumber = g1, entry = Some e1\<rparr>,
          \<lparr>nextGenerationNumber = g2, entry = Some e2\<rparr>,
          \<lparr>nextGenerationNumber = g3, entry = Some e3\<rparr>,
          \<lparr>nextGenerationNumber = 0, entry = None\<rparr>])"
  "firstFreeIndex [a, \<lparr>nextGenerationNumber = g1, entry = None\<rparr>, b, c, d] =
     (1, [a, \<lparr>nextGenerationNumber = g1, entry = None\<rparr>, b, c, d])"
  by (simp_all add: firstFreeIndex_def Let_def upt_conv_Cons del: upt_Suc)

lemma membership_example_eq:
  "membership_example = \<lparr>serverList =
     [\<lparr>nextGenerationNumber = 0, entry = None\<rparr>,
      \<lparr>nextGenerationNumber = 2,
        entry = Some (entry_example 1 1 ''mock:host=server5'' {MEMBERSHIP_SERVICE} UP)\<rparr>,
      \<lparr>nextGenerationNumber = 1,
        entry = Some (entry_example 2 0 ''mock:host=server2'' {} CRASHED)\<rparr>,
      \<lparr>nextGenerationNumber = 1,
        entry = Some (entry_example 3 0 ''mock:host=server3'' {} UP)\<rparr>,
      \<lparr>nextGenerationNumber = 1,
        entry = Some (entry_example 4 0 ''mock:host=server4'' {MEMBERSHIP_SERVICE} UP)\<rparr>],
     numberOfMasters = 0, numberOfBackups = 0, version = 0, updates = []\<rparr>"
  by (simp add: membership_example_def add_def crashed_def remove_def
      getReferenceFromServerId_def sendMembershipUpdate_def firstFreeIndex_Nil
      firstFreeIndex_examples CoordinatorServerList_init_def entry_example_def Let_def)


lemma liveEntries_membership_example:
  "liveEntries (serverList membership_example) =
     [entry_example 1 1 ''mock:host=server5'' {MEMBERSHIP_SERVICE} UP,
      entry_example 2 0 ''mock:host=server2'' {} CRASHED,
      entry_example 3 0 ''mock:host=server3'' {} UP,
      entry_example 4 0 ''mock:host=server4'' {MEMBERSHIP_SERVICE} UP]"
  by (simp add: membership_example_eq liveEntries_def List.map_filter_def)

lemma membership_update_eq:
  "membership_update = \<lparr>update = \<lparr>version_number = 1, server = []\<rparr>, exclude = {}\<rparr>"
  by (simp add: membership_update_def sendMembershipUpdate_def membership_example_eq Let_def)

text \<open>
  The model sends what the test expects of its transport (lines 421 to 423): the
  update to server 5, the whole list to server 5, the update to server 4.
\<close>

lemma dispatchUpdate_test_replay:
  "fst (dispatchUpdate respond_example full_example membership_update membership_example
         (\<lambda>r. 0)) =
     [UpdateServerList \<lparr>indexNumber = 1, generationNumber = 1\<rparr> (update membership_update),
      SetServerList \<lparr>indexNumber = 1, generationNumber = 1\<rparr> full_example,
      UpdateServerList \<lparr>indexNumber = 4, generationNumber = 0\<rparr> (update membership_update)]"
  by (simp add: dispatchUpdate_def liveEntries_membership_example updateRecipient_def
      isRecipient_def membership_update_eq respond_example_def entry_example_def Let_def)

theorem dispatchUpdate_protocol_witness:
  "distinct (map serverId (liveEntries (serverList membership_example))) \<and>
   sentTo \<lparr>indexNumber = 1, generationNumber = 1\<rparr>
     (fst (dispatchUpdate respond_example full_example membership_update membership_example
        (\<lambda>r. 0))) =
     [UpdateServerList \<lparr>indexNumber = 1, generationNumber = 1\<rparr> (update membership_update),
      SetServerList \<lparr>indexNumber = 1, generationNumber = 1\<rparr> full_example] \<and>
   sentTo \<lparr>indexNumber = 4, generationNumber = 0\<rparr>
     (fst (dispatchUpdate respond_example full_example membership_update membership_example
        (\<lambda>r. 0))) =
     [UpdateServerList \<lparr>indexNumber = 4, generationNumber = 0\<rparr> (update membership_update)] \<and>
   snd (dispatchUpdate respond_example full_example membership_update membership_example
        (\<lambda>r. 0)) \<lparr>indexNumber = 4, generationNumber = 0\<rparr> = 1 \<and>
   sentTo \<lparr>indexNumber = 1, generationNumber = 0\<rparr>
     (fst (dispatchUpdate respond_example full_example membership_update membership_example
        (\<lambda>r. 0))) = [] \<and>
   sentTo \<lparr>indexNumber = 2, generationNumber = 0\<rparr>
     (fst (dispatchUpdate respond_example full_example membership_update membership_example
        (\<lambda>r. 0))) = [] \<and>
   sentTo \<lparr>indexNumber = 3, generationNumber = 0\<rparr>
     (fst (dispatchUpdate respond_example full_example membership_update membership_example
        (\<lambda>r. 0))) = [] \<and>
   sentTo \<lparr>indexNumber = 4, generationNumber = 0\<rparr>
     (fst (dispatchUpdate respond_example full_example
        (membership_update\<lparr>exclude := {\<lparr>indexNumber = 4, generationNumber = 0\<rparr>}\<rparr>)
        membership_example (\<lambda>r. 0))) = [] \<and>
   sentTo \<lparr>indexNumber = 4, generationNumber = 0\<rparr>
     (fst (dispatchUpdate respond_example full_example membership_update membership_example
        (\<lambda>r. 7))) =
     [SetServerList \<lparr>indexNumber = 4, generationNumber = 0\<rparr> full_example]"
proof -
  let ?live = "liveEntries (serverList membership_example)"
  let ?e5 = "entry_example 1 1 ''mock:host=server5'' {MEMBERSHIP_SERVICE} UP"
  let ?e2 = "entry_example 2 0 ''mock:host=server2'' {} CRASHED"
  let ?e3 = "entry_example 3 0 ''mock:host=server3'' {} UP"
  let ?e4 = "entry_example 4 0 ''mock:host=server4'' {MEMBERSHIP_SERVICE} UP"
  have dist: "distinct (map serverId ?live)"
    by (simp add: liveEntries_membership_example entry_example_def)
  have mem: "?e5 \<in> set ?live" "?e2 \<in> set ?live" "?e3 \<in> set ?live" "?e4 \<in> set ?live"
    by (simp_all add: liveEntries_membership_example)
  note facts = entry_example_def membership_update_eq respond_example_def Let_def
  have c5: "sentTo \<lparr>indexNumber = 1, generationNumber = 1\<rparr>
     (fst (dispatchUpdate respond_example full_example membership_update membership_example
        (\<lambda>r. 0))) =
     [UpdateServerList \<lparr>indexNumber = 1, generationNumber = 1\<rparr> (update membership_update),
      SetServerList \<lparr>indexNumber = 1, generationNumber = 1\<rparr> full_example]"
    using dispatchUpdate_protocol [OF dist mem(1), of membership_update respond_example
        full_example "\<lambda>r. 0"]
    by (simp add: facts)
  have c4: "sentTo \<lparr>indexNumber = 4, generationNumber = 0\<rparr>
     (fst (dispatchUpdate respond_example full_example membership_update membership_example
        (\<lambda>r. 0))) =
     [UpdateServerList \<lparr>indexNumber = 4, generationNumber = 0\<rparr> (update membership_update)]"
    "snd (dispatchUpdate respond_example full_example membership_update membership_example
        (\<lambda>r. 0)) \<lparr>indexNumber = 4, generationNumber = 0\<rparr> = 1"
    using dispatchUpdate_protocol [OF dist mem(4), of membership_update respond_example
        full_example "\<lambda>r. 0"]
    by (simp_all add: facts)
  have c1: "sentTo \<lparr>indexNumber = 1, generationNumber = 0\<rparr>
     (fst (dispatchUpdate respond_example full_example membership_update membership_example
        (\<lambda>r. 0))) = []"
    using dispatchUpdate_protocol [OF dist mem(1), of membership_update respond_example
        full_example "\<lambda>r. 0"]
    by (auto simp: Let_def sentTo_def filter_empty_conv liveEntries_membership_example
        entry_example_def)
  have c2: "sentTo \<lparr>indexNumber = 2, generationNumber = 0\<rparr>
     (fst (dispatchUpdate respond_example full_example membership_update membership_example
        (\<lambda>r. 0))) = []"
    using dispatchUpdate_protocol [OF dist mem(2), of membership_update respond_example
        full_example "\<lambda>r. 0"]
    by (simp add: facts)
  have c3: "sentTo \<lparr>indexNumber = 3, generationNumber = 0\<rparr>
     (fst (dispatchUpdate respond_example full_example membership_update membership_example
        (\<lambda>r. 0))) = []"
    using dispatchUpdate_protocol [OF dist mem(3), of membership_update respond_example
        full_example "\<lambda>r. 0"]
    by (simp add: facts)
  have cx: "sentTo \<lparr>indexNumber = 4, generationNumber = 0\<rparr>
     (fst (dispatchUpdate respond_example full_example
        (membership_update\<lparr>exclude := {\<lparr>indexNumber = 4, generationNumber = 0\<rparr>}\<rparr>)
        membership_example (\<lambda>r. 0))) = []"
    using dispatchUpdate_protocol [OF dist mem(4),
        of "membership_update\<lparr>exclude := {\<lparr>indexNumber = 4, generationNumber = 0\<rparr>}\<rparr>"
        respond_example full_example "\<lambda>r. 0"]
    by (simp add: facts)
  have cf: "sentTo \<lparr>indexNumber = 4, generationNumber = 0\<rparr>
     (fst (dispatchUpdate respond_example full_example membership_update membership_example
        (\<lambda>r. 7))) =
     [SetServerList \<lparr>indexNumber = 4, generationNumber = 0\<rparr> full_example]"
    using dispatchUpdate_protocol [OF dist mem(4), of membership_update respond_example
        full_example "\<lambda>r. 7"]
    by (simp add: facts)
  from dist c5 c4 c1 c2 c3 cx cf show ?thesis by (intro conjI)
qed

end
